theory Spec2Isabelle
  imports Main "HOL-Library.AList"
begin

section \<open>The VS Code chunk endpoints of \<^verbatim>\<open>vscode_integration.py\<close>\<close>

subsection \<open>Python strings\<close>

text \<open>
  A Python \<^verbatim>\<open>str\<close> is a sequence of Unicode code points and \<^verbatim>\<open>len\<close> counts code
  points, so a string is a list of code points here, not of bytes. \<open>lit\<close> turns
  an ASCII literal of the source into such a list.
\<close>

type_synonym codepoint = nat
type_synonym str = "codepoint list"

definition lit :: "string \<Rightarrow> str" where
  "lit s = map of_char s"

definition dot :: codepoint where
  "dot = 46"

definition newline :: codepoint where
  "newline = 10"

text \<open>
  \<^verbatim>\<open>s.split(sep)\<close> for a separator of one character, the only way the source calls it
  (\<^verbatim>\<open>split('.')\<close> and \<^verbatim>\<open>split('\n')\<close>): the pieces between the separators, empty pieces
  kept, \<^verbatim>\<open>['']\<close> for the empty string.
\<close>

fun str_split :: "str \<Rightarrow> codepoint \<Rightarrow> str list" where
  "str_split [] sep = [[]]"
| "str_split (c # cs) sep =
     (if c = sep then [] # str_split cs sep
      else (case str_split cs sep of
              [] \<Rightarrow> [[c]]
            | w # ws \<Rightarrow> (c # w) # ws))"

text \<open>\<^verbatim>\<open>s.startswith(p)\<close>.\<close>

definition startswith :: "str \<Rightarrow> str \<Rightarrow> bool" where
  "startswith s p = (take (length p) s = p)"

text \<open>
  \<^verbatim>\<open>s.encode("utf-8")\<close> raises \<^verbatim>\<open>UnicodeEncodeError\<close> exactly when \<^verbatim>\<open>s\<close> holds a
  surrogate code point (U+D800 to U+DFFF), which \<^verbatim>\<open>json.loads\<close> produces from an escape
  such as \<^verbatim>\<open>"\ud800"\<close>.
\<close>

definition surrogate :: "codepoint \<Rightarrow> bool" where
  "surrogate c = (55296 \<le> c \<and> c \<le> 57343)"

definition utf8_encodable :: "str \<Rightarrow> bool" where
  "utf8_encodable s = list_all (\<lambda>c. \<not> surrogate c) s"

text \<open>\<^verbatim>\<open>str(i)\<close> of an integer, as an f-string formats it: decimal, with a minus sign.\<close>

fun digits :: "nat \<Rightarrow> str" where
  "digits n = (if n < 10 then [48 + n] else digits (n div 10) @ [48 + n mod 10])"

declare digits.simps [simp del]

definition str_of_int :: "int \<Rightarrow> str" where
  "str_of_int i = (if i < 0 then 45 # digits (nat (- i)) else digits (nat i))"

subsection \<open>Request data\<close>

text \<open>
  What \<^verbatim>\<open>json.loads\<close> returns: \<^verbatim>\<open>None\<close>, a bool, an int, a float, a str, a list or a
  dict with string keys. The dict is an association list read with \<open>map_of\<close>. The
  value of a float is never inspected by the source.
\<close>

typedecl pyfloat

datatype json =
    JNull
  | JBool bool
  | JInt int
  | JFloat pyfloat
  | JStr str
  | JList "json list"
  | JDict "(str \<times> json) list"

text \<open>
  The exceptions that the request handler can meet: the first four before it stores
  anything, \<^verbatim>\<open>UnicodeEncodeError\<close> when it renders its answer.
\<close>

datatype exn =
  JSONDecodeError | UnicodeDecodeError | TypeError | ValidationError | UnicodeEncodeError

text \<open>\<^verbatim>\<open>class CodeChunk(BaseModel)\<close>: three required fields.\<close>

record CodeChunk =
  path :: str
  idx :: int
  content :: str

text \<open>
  The validation of one field is pydantic's. A value of the declared type is taken as
  it is; what pydantic does with a value of another type (it converts some of them,
  depending on its version and mode) is the parameter \<open>P\<close>, so that every theorem
  below holds for each such behaviour.
\<close>

record pydantic =
  lax_str :: "json \<Rightarrow> str option"
  lax_int :: "json \<Rightarrow> int option"

definition validate_str :: "pydantic \<Rightarrow> json \<Rightarrow> str option" where
  "validate_str P v = (case v of JStr s \<Rightarrow> Some s | _ \<Rightarrow> lax_str P v)"

definition validate_int :: "pydantic \<Rightarrow> json \<Rightarrow> int option" where
  "validate_int P v = (case v of JInt i \<Rightarrow> Some i | _ \<Rightarrow> lax_int P v)"

definition field :: "(str \<times> json) list \<Rightarrow> string \<Rightarrow> (json \<Rightarrow> 'a option) \<Rightarrow> 'a option" where
  "field kwargs name validate =
     (case map_of kwargs (lit name) of
        None \<Rightarrow> None
      | Some v \<Rightarrow> validate v)"

text \<open>
  \<^verbatim>\<open>CodeChunk(**chunk_data)\<close>: unpacking anything but a dict raises \<^verbatim>\<open>TypeError\<close>; a
  missing or invalid field raises pydantic's \<^verbatim>\<open>ValidationError\<close>; keys that are not
  fields are ignored.
\<close>

definition CodeChunk_init :: "pydantic \<Rightarrow> json \<Rightarrow> exn + CodeChunk" where
  "CodeChunk_init P chunk_data =
     (case chunk_data of
        JDict kwargs \<Rightarrow>
          (case (field kwargs ''path'' (validate_str P),
                 field kwargs ''idx'' (validate_int P),
                 field kwargs ''content'' (validate_str P)) of
             (Some p, Some i, Some c) \<Rightarrow> Inr \<lparr>path = p, idx = i, content = c\<rparr>
           | _ \<Rightarrow> Inl ValidationError)
      | _ \<Rightarrow> Inl TypeError)"

text \<open>
  A request, as the handler reads it: the outcome of \<^verbatim>\<open>json.loads(body)\<close> (the parsed
  value, or the exception raised on a body that is not JSON or not decodable text) and
  the \<^verbatim>\<open>Authorization\<close> header, if there is one.
\<close>

record Request =
  json_loads_body :: "exn + json"
  authorization :: "str option"

text \<open>
  The two readings of \<^verbatim>\<open>datetime.utcnow().isoformat()\<close> that processing a chunk takes,
  in the order of the calls.
\<close>

record clock =
  utcnow_stored :: str
  utcnow_result :: str

subsection \<open>State and responses\<close>

text \<open>An entry of \<^verbatim>\<open>chunk_storage[file_key]\<close>.\<close>

record ChunkRecord =
  rec_idx :: int
  rec_content :: str
  rec_timestamp :: str

text \<open>
  \<^verbatim>\<open>self.chunk_storage\<close> is a dict from path to the list of its entries, kept here in
  insertion order as Python keeps it. \<^verbatim>\<open>self.auth_manager\<close> is \<^verbatim>\<open>None\<close> or an object
  whose \<^verbatim>\<open>validate_api_key\<close> answers whether a key is valid; the manager is not part of
  this module, and it is taken to answer with a bool for every key.
\<close>

type_synonym storage = "(str \<times> ChunkRecord list) list"

record VSCodeIntegration =
  auth_manager :: "(str \<Rightarrow> bool) option"
  chunk_storage :: storage

record ProcessingResult =
  file_path :: str
  chunk_index :: int
  file_extension :: str
  content_length :: nat
  lines_count :: nat
  processed_at :: str
  language :: str
  analysis :: str

record StatusInfo =
  service :: str
  status :: str
  timestamp :: str
  chunks_processed :: nat
  endpoints :: "(str \<times> str) list"

text \<open>
  The bodies the two handlers send. \<open>ProcessingErrorBody e\<close> is
  \<^verbatim>\<open>{"error": f"Processing error: {str(e)}"}\<close>, whose text is the library's.
\<close>

datatype body =
    ErrorBody str
  | ProcessingErrorBody exn
  | OkBody str ProcessingResult
  | StatusBody StatusInfo

record JSONResponse =
  response_body :: body
  status_code :: nat

subsection \<open>\<^verbatim>\<open>_process_chunk\<close>\<close>

text \<open>
  \<^verbatim>\<open>chunk.path.split('.')[-1] if '.' in chunk.path else ''\<close>. The list that \<^verbatim>\<open>split\<close>
  returns is never empty (\<open>str_split_not_Nil\<close> below), so \<^verbatim>\<open>[-1]\<close> is its last element.
\<close>

definition extension_of :: "str \<Rightarrow> str" where
  "extension_of p = (if dot \<in> set p then last (str_split p dot) else [])"

text \<open>
  On the storage, \<open>AList.update k v\<close> is \<^verbatim>\<open>d[k] = v\<close> (a new key goes to the end) and
  \<open>AList.map_entry k f\<close> changes the value stored under \<open>k\<close>; here it is the
  \<^verbatim>\<open>append\<close> to the list under \<^verbatim>\<open>file_key\<close>. The function returns the result dictionary
  and the object with its updated storage. No statement of its body raises on a
  validated chunk, so its \<^verbatim>\<open>except\<close> clause, which re-raises, has no branch here.
\<close>

definition process_chunk ::
  "VSCodeIntegration \<Rightarrow> CodeChunk \<Rightarrow> clock \<Rightarrow> ProcessingResult \<times> VSCodeIntegration" where
  "process_chunk self chunk clk =
     (let file_key = path chunk;
          storage1 = (if map_of (chunk_storage self) file_key = None
                      then AList.update file_key [] (chunk_storage self)
                      else chunk_storage self);
          storage2 = AList.map_entry file_key
                       (\<lambda>log. log @ [\<lparr>rec_idx = idx chunk, rec_content = content chunk,
                                      rec_timestamp = utcnow_stored clk\<rparr>])
                       storage1;
          ext = extension_of (path chunk);
          result = \<lparr>file_path = path chunk,
                    chunk_index = idx chunk,
                    file_extension = ext,
                    content_length = length (content chunk),
                    lines_count = length (str_split (content chunk) newline),
                    processed_at = utcnow_result clk,
                    language = (if ext = lit ''py'' then lit ''python''
                                else if ext \<in> set [lit ''ts'', lit ''js'']
                                then lit ''typescript/javascript''
                                else lit ''generic''),
                    analysis = (if ext = lit ''py'' then lit ''Python file processed''
                                else if ext \<in> set [lit ''ts'', lit ''js'']
                                then lit ''TypeScript/JavaScript file processed''
                                else lit ''Generic file processed'')\<rparr>
      in (result, self\<lparr>chunk_storage := storage2\<rparr>))"

subsection \<open>\<^verbatim>\<open>POST /index/chunk\<close>\<close>

text \<open>
  The handler parses and validates the body first, then authenticates, then processes.
  \<^verbatim>\<open>JSONResponse\<close> without a \<^verbatim>\<open>status_code\<close> answers 200. Only
  \<^verbatim>\<open>json.JSONDecodeError\<close> has a handler of its own; every other exception reaches
  \<^verbatim>\<open>except Exception\<close>.

  The success \<^verbatim>\<open>JSONResponse\<close> is built inside the \<^verbatim>\<open>try\<close>, after \<^verbatim>\<open>_process_chunk\<close> has
  stored the chunk, and its constructor renders the content with
  \<^verbatim>\<open>json.dumps(..., ensure_ascii=False).encode("utf-8")\<close>. Of the strings in that content
  only the path (in \<^verbatim>\<open>message\<close>, \<^verbatim>\<open>file_path\<close> and \<^verbatim>\<open>file_extension\<close>) comes from the
  request; the others are literals, the digits of the index and timestamps in ISO
  format. So the rendering raises \<^verbatim>\<open>UnicodeEncodeError\<close> exactly when the path holds a
  surrogate, and the handler then answers 500 with the chunk already stored.
\<close>

definition on_exception :: "exn \<Rightarrow> JSONResponse" where
  "on_exception e =
     (case e of
        JSONDecodeError \<Rightarrow> \<lparr>response_body = ErrorBody (lit ''Invalid JSON''), status_code = 400\<rparr>
      | _ \<Rightarrow> \<lparr>response_body = ProcessingErrorBody e, status_code = 500\<rparr>)"

text \<open>
  The first statements of the handler: \<^verbatim>\<open>json.loads\<close> of the body, then
  \<^verbatim>\<open>CodeChunk(**chunk_data)\<close>.
\<close>

definition parse_chunk :: "pydantic \<Rightarrow> Request \<Rightarrow> exn + CodeChunk" where
  "parse_chunk P request =
     (case json_loads_body request of
        Inl e \<Rightarrow> Inl e
      | Inr chunk_data \<Rightarrow> CodeChunk_init P chunk_data)"

text \<open>
  The block under \<^verbatim>\<open>if self.auth_manager:\<close>: the error message of the 401 response it
  returns, or \<open>None\<close> when it lets the request through. An empty header is falsy in
  Python; \<^verbatim>\<open>auth_header[7:]\<close> drops the seven characters of \<^verbatim>\<open>"Bearer "\<close>.
\<close>

definition auth_error :: "VSCodeIntegration \<Rightarrow> Request \<Rightarrow> str option" where
  "auth_error self request =
     (case auth_manager self of
        None \<Rightarrow> None
      | Some validate_api_key \<Rightarrow>
          (case authorization request of
             None \<Rightarrow> Some (lit ''Authorization header required'')
           | Some auth_header \<Rightarrow>
               if auth_header \<noteq> [] \<and> startswith auth_header (lit ''Bearer '')
               then (if \<not> validate_api_key (drop 7 auth_header)
                     then Some (lit ''Invalid API key'')
                     else None)
               else Some (lit ''Authorization header required'')))"

definition receive_code_chunk ::
  "pydantic \<Rightarrow> VSCodeIntegration \<Rightarrow> Request \<Rightarrow> clock \<Rightarrow> JSONResponse \<times> VSCodeIntegration" where
  "receive_code_chunk P self request clk =
     (case parse_chunk P request of
        Inl e \<Rightarrow> (on_exception e, self)
      | Inr chunk \<Rightarrow>
          (case auth_error self request of
             Some msg \<Rightarrow> (\<lparr>response_body = ErrorBody msg, status_code = 401\<rparr>, self)
           | None \<Rightarrow>
               (let (result, self') = process_chunk self chunk clk
                in if utf8_encodable (path chunk)
                   then (\<lparr>response_body =
                             OkBody (lit ''Processed chunk '' @ str_of_int (idx chunk)
                                     @ lit '' from '' @ path chunk) result,
                          status_code = 200\<rparr>, self')
                   else (on_exception UnicodeEncodeError, self'))))"

subsection \<open>\<^verbatim>\<open>GET /index/status\<close>\<close>

text \<open>
  The handler takes the reading of the clock for its \<^verbatim>\<open>timestamp\<close>. Building the
  dictionary cannot raise, so the answer is always the 200 one.
\<close>

definition indexing_status :: "VSCodeIntegration \<Rightarrow> str \<Rightarrow> JSONResponse" where
  "indexing_status self now =
     \<lparr>response_body = StatusBody
        \<lparr>service = lit ''vscode-mcp-integration'',
         status = lit ''healthy'',
         timestamp = now,
         chunks_processed = length (chunk_storage self),
         endpoints = [(lit ''POST /index/chunk'', lit ''Receive code chunks from VS Code''),
                      (lit ''GET /index/status'', lit ''Get indexing status'')]\<rparr>,
      status_code = 200\<rparr>"

text \<open>\<^verbatim>\<open>VSCodeIntegration.__init__\<close>: the storage starts empty.\<close>

definition init :: "(str \<Rightarrow> bool) option \<Rightarrow> VSCodeIntegration" where
  "init am = \<lparr>auth_manager = am, chunk_storage = []\<rparr>"

subsection \<open>Runs and readings of the state\<close>

text \<open>
  Chunk requests handled one after the other, each with its clock readings. The handler
  does not suspend between its reading and its writing of the storage, so one request
  is one step. The result is the responses, in order, and the final state.
\<close>

fun serve ::
  "pydantic \<Rightarrow> VSCodeIntegration \<Rightarrow> (Request \<times> clock) list
     \<Rightarrow> JSONResponse list \<times> VSCodeIntegration" where
  "serve P self [] = ([], self)"
| "serve P self ((request, clk) # rest) =
     (let (resp, self') = receive_code_chunk P self request clk;
          (resps, self'') = serve P self' rest
      in (resp # resps, self''))"

text \<open>What \<^verbatim>\<open>GET /index/status\<close> reports under \<^verbatim>\<open>chunks_processed\<close>.\<close>

definition reported_chunks :: "VSCodeIntegration \<Rightarrow> str \<Rightarrow> nat option" where
  "reported_chunks self now =
     (case response_body (indexing_status self now) of
        StatusBody info \<Rightarrow> Some (chunks_processed info)
      | _ \<Rightarrow> None)"

text \<open>The log stored for a path: empty when the path is not a key.\<close>

definition chunk_log :: "VSCodeIntegration \<Rightarrow> str \<Rightarrow> ChunkRecord list" where
  "chunk_log self p = (case map_of (chunk_storage self) p of None \<Rightarrow> [] | Some log \<Rightarrow> log)"

text \<open>
  The count in the words of the specification (not computed anywhere in the source):
  the number of stored entries over all paths.
\<close>

definition spec_total_chunks :: "VSCodeIntegration \<Rightarrow> nat" where
  "spec_total_chunks self = sum_list (map (\<lambda>kv. length (snd kv)) (chunk_storage self))"

text \<open>The \<^verbatim>\<open>result\<close> of a success body.\<close>

definition result_of :: "JSONResponse \<Rightarrow> ProcessingResult option" where
  "result_of resp = (case response_body resp of OkBody msg result \<Rightarrow> Some result | _ \<Rightarrow> None)"

text \<open>A request with a given JSON value as its body and no \<^verbatim>\<open>Authorization\<close> header.\<close>

definition post :: "json \<Rightarrow> Request" where
  "post j = \<lparr>json_loads_body = Inr j, authorization = None\<rparr>"

text \<open>The JSON object \<^verbatim>\<open>{"path": p, "idx": i, "content": c}\<close>.\<close>

definition chunk_json :: "string \<Rightarrow> int \<Rightarrow> string \<Rightarrow> json" where
  "chunk_json p i c =
     JDict [(lit ''path'', JStr (lit p)), (lit ''idx'', JInt i), (lit ''content'', JStr (lit c))]"

text \<open>
  Concrete surroundings for examples: a pydantic that converts nothing, a clock whose
  two readings are the same given text, and an authentication manager that accepts
  one key.
\<close>

definition strict :: pydantic where
  "strict = \<lparr>lax_str = (\<lambda>v. None), lax_int = (\<lambda>v. None)\<rparr>"

definition tick :: "string \<Rightarrow> clock" where
  "tick t = \<lparr>utcnow_stored = lit t, utcnow_result = lit t\<rparr>"

definition only_key :: "string \<Rightarrow> str \<Rightarrow> bool" where
  "only_key k api_key = (api_key = lit k)"

section \<open>Properties\<close>

subsection \<open>Splitting and extensions\<close>

lemma str_split_not_Nil: "str_split s sep \<noteq> []"
  by (induction s) (auto split: list.splits)

lemma str_split_append:
  "str_split (p @ sep # e) sep = str_split p sep @ str_split e sep"
proof (induction p)
  case Nil
  show ?case by simp
next
  case (Cons c p)
  obtain w ws where "str_split p sep = w # ws"
    using str_split_not_Nil [of p sep] by (cases "str_split p sep") auto
  with Cons show ?case by simp
qed

lemma str_split_no_sep: "sep \<notin> set s \<Longrightarrow> str_split s sep = [s]"
  by (induction s) auto

lemma last_str_split:
  "sep \<notin> set e \<Longrightarrow> last (str_split (p @ sep # e) sep) = e"
  by (simp add: str_split_append str_split_no_sep)

lemma length_str_split: "length (str_split s sep) = Suc (length (filter (\<lambda>c. c = sep) s))"
  by (induction s) (auto split: list.splits simp: str_split_not_Nil)

lemma extension_of_suffix: "dot \<notin> set e \<Longrightarrow> extension_of (p @ dot # e) = e"
  by (simp add: extension_of_def last_str_split)

lemma extension_of_no_dot: "dot \<notin> set p \<Longrightarrow> extension_of p = []"
  by (simp add: extension_of_def)

subsection \<open>The storage after \<^verbatim>\<open>_process_chunk\<close>\<close>

lemma storage_process_chunk:
  "map_of (chunk_storage (snd (process_chunk self chunk clk))) =
     (map_of (chunk_storage self))
       (path chunk \<mapsto> chunk_log self (path chunk)
          @ [\<lparr>rec_idx = idx chunk, rec_content = content chunk,
               rec_timestamp = utcnow_stored clk\<rparr>])"
  by (auto simp add: process_chunk_def Let_def chunk_log_def AList.map_of_map_entry
        AList.update_conv' fun_eq_iff)

lemma chunk_log_process_chunk:
  "chunk_log (snd (process_chunk self chunk clk)) p =
     (if p = path chunk
      then chunk_log self p @ [\<lparr>rec_idx = idx chunk, rec_content = content chunk,
                                 rec_timestamp = utcnow_stored clk\<rparr>]
      else chunk_log self p)"
  by (simp add: chunk_log_def [of "snd (process_chunk self chunk clk)"] storage_process_chunk)
     (simp add: chunk_log_def)

lemma auth_manager_process_chunk:
  "auth_manager (snd (process_chunk self chunk clk)) = auth_manager self"
  by (simp add: process_chunk_def Let_def)

lemma total_update_new:
  "map_of al k = None \<Longrightarrow>
     sum_list (map (\<lambda>kv. length (snd kv)) (AList.update k [] al)) =
     sum_list (map (\<lambda>kv. length (snd kv)) al)"
  by (induction al) (auto split: if_splits)

lemma total_map_entry:
  "map_of al k \<noteq> None \<Longrightarrow>
     sum_list (map (\<lambda>kv. length (snd kv)) (AList.map_entry k (\<lambda>log. log @ [r]) al)) =
     Suc (sum_list (map (\<lambda>kv. length (snd kv)) al))"
  by (induction al) (auto split: if_splits)

lemma spec_total_process_chunk:
  "spec_total_chunks (snd (process_chunk self chunk clk)) = Suc (spec_total_chunks self)"
  by (auto simp add: spec_total_chunks_def process_chunk_def Let_def total_update_new
        total_map_entry AList.update_conv')

lemma length_map_entry: "length (AList.map_entry k f al) = length al"
  by (induction al) auto

lemma length_update:
  "length (AList.update k v al) = (if map_of al k = None then Suc (length al) else length al)"
  by (induction al) (auto split: if_splits)

lemma length_storage_process_chunk:
  "length (chunk_storage (snd (process_chunk self chunk clk))) =
     (if map_of (chunk_storage self) (path chunk) = None
      then Suc (length (chunk_storage self)) else length (chunk_storage self))"
  by (simp add: process_chunk_def Let_def length_map_entry length_update)

subsection \<open>The outcomes of the chunk handler\<close>

lemma receive_rejected_parse:
  "parse_chunk P request = Inl e \<Longrightarrow>
     receive_code_chunk P self request clk = (on_exception e, self)"
  by (simp add: receive_code_chunk_def)

lemma receive_rejected_auth:
  "parse_chunk P request = Inr chunk \<Longrightarrow> auth_error self request = Some msg \<Longrightarrow>
     receive_code_chunk P self request clk =
       (\<lparr>response_body = ErrorBody msg, status_code = 401\<rparr>, self)"
  by (simp add: receive_code_chunk_def)

lemma utf8_encodable_lit: "utf8_encodable (lit s)"
  by (simp add: utf8_encodable_def lit_def surrogate_def list_all_iff order.strict_trans2
        [OF nat_of_char_less_256] not_le)

lemma receive_accepted_state:
  "parse_chunk P request = Inr chunk \<Longrightarrow> auth_error self request = None \<Longrightarrow>
     snd (receive_code_chunk P self request clk) = snd (process_chunk self chunk clk)"
  by (simp add: receive_code_chunk_def split_def Let_def)

lemma receive_unencodable:
  "parse_chunk P request = Inr chunk \<Longrightarrow> auth_error self request = None \<Longrightarrow>
     \<not> utf8_encodable (path chunk) \<Longrightarrow>
     receive_code_chunk P self request clk =
       (\<lparr>response_body = ProcessingErrorBody UnicodeEncodeError, status_code = 500\<rparr>,
        snd (process_chunk self chunk clk))"
  by (simp add: receive_code_chunk_def split_def Let_def on_exception_def)

lemma receive_accepted:
  "parse_chunk P request = Inr chunk \<Longrightarrow> auth_error self request = None \<Longrightarrow>
     utf8_encodable (path chunk) \<Longrightarrow>
     receive_code_chunk P self request clk =
       (\<lparr>response_body =
            OkBody (lit ''Processed chunk '' @ str_of_int (idx chunk) @ lit '' from '' @ path chunk)
              (fst (process_chunk self chunk clk)),
          status_code = 200\<rparr>,
        snd (process_chunk self chunk clk))"
  by (simp add: receive_code_chunk_def split_def Let_def)

lemma status_on_exception:
  "status_code (on_exception e) = (if e = JSONDecodeError then 400 else 500)"
  by (cases e) (simp_all add: on_exception_def)

lemma parse_chunk_post:
  "parse_chunk P (post (chunk_json p i c)) = Inr \<lparr>path = lit p, idx = i, content = lit c\<rparr>"
  by (simp add: parse_chunk_def post_def chunk_json_def CodeChunk_init_def field_def
        validate_str_def validate_int_def lit_def)

lemma auth_error_no_manager: "auth_manager self = None \<Longrightarrow> auth_error self request = None"
  by (simp add: auth_error_def)

lemma receive_post:
  "auth_manager self = None \<Longrightarrow>
     receive_code_chunk P self (post (chunk_json p i c)) clk =
       (\<lparr>response_body =
            OkBody (lit ''Processed chunk '' @ str_of_int i @ lit '' from '' @ lit p)
              (fst (process_chunk self \<lparr>path = lit p, idx = i, content = lit c\<rparr> clk)),
          status_code = 200\<rparr>,
        snd (process_chunk self \<lparr>path = lit p, idx = i, content = lit c\<rparr> clk))"
proof -
  assume am: "auth_manager self = None"
  have e: "utf8_encodable (path \<lparr>path = lit p, idx = i, content = lit c\<rparr>)"
    by (simp add: utf8_encodable_lit)
  show ?thesis
    using receive_accepted [OF parse_chunk_post auth_error_no_manager [OF am] e, of P clk]
    by simp
qed

text \<open>
  The fourth outcome on a concrete request: the path \<^verbatim>\<open>"\ud800.py"\<close> passes validation,
  the chunk is stored, and the answer is 500.
\<close>

lemma surrogate_path_stored_then_500:
  "receive_code_chunk P (self\<lparr>auth_manager := None\<rparr>)
     (post (JDict [(lit ''path'', JStr [55296, 46, 112, 121]), (lit ''idx'', JInt 0),
                   (lit ''content'', JStr [])])) clk =
     (\<lparr>response_body = ProcessingErrorBody UnicodeEncodeError, status_code = 500\<rparr>,
      snd (process_chunk (self\<lparr>auth_manager := None\<rparr>)
             \<lparr>path = [55296, 46, 112, 121], idx = 0, content = []\<rparr> clk))"
proof -
  have p: "parse_chunk P
             (post (JDict [(lit ''path'', JStr [55296, 46, 112, 121]), (lit ''idx'', JInt 0),
                           (lit ''content'', JStr [])])) =
           Inr \<lparr>path = [55296, 46, 112, 121], idx = 0, content = []\<rparr>"
    by (simp add: parse_chunk_def post_def CodeChunk_init_def field_def validate_str_def
          validate_int_def lit_def)
  have a: "auth_error (self\<lparr>auth_manager := None\<rparr>) request = None" for request
    by (simp add: auth_error_def)
  have e: "\<not> utf8_encodable (path \<lparr>path = [55296, 46, 112, 121], idx = 0, content = []\<rparr>)"
    by (simp add: utf8_encodable_def surrogate_def)
  show ?thesis
    by (rule receive_unencodable [OF p a e])
qed

subsection \<open>The result of a processed chunk\<close>

text \<open>
  Claim C9. A POST of \<^verbatim>\<open>{"path": "/a/b.py", "idx": 0, "content": "x=1"}\<close> to an
  integration without an authentication manager, whatever it has stored so far, is
  answered with status 200 and a result whose \<^verbatim>\<open>language\<close> is \<^verbatim>\<open>"python"\<close>, whose
  \<^verbatim>\<open>content_length\<close> is 3 and whose \<^verbatim>\<open>lines_count\<close> is 1.
\<close>

theorem scenario_python_chunk:
  "status_code (fst (receive_code_chunk P (self\<lparr>auth_manager := None\<rparr>)
      (post (chunk_json ''/a/b.py'' 0 ''x=1'')) clk)) = 200 \<and>
   map_option language (result_of (fst (receive_code_chunk P (self\<lparr>auth_manager := None\<rparr>)
      (post (chunk_json ''/a/b.py'' 0 ''x=1'')) clk))) = Some (lit ''python'') \<and>
   map_option content_length (result_of (fst (receive_code_chunk P (self\<lparr>auth_manager := None\<rparr>)
      (post (chunk_json ''/a/b.py'' 0 ''x=1'')) clk))) = Some 3 \<and>
   map_option lines_count (result_of (fst (receive_code_chunk P (self\<lparr>auth_manager := None\<rparr>)
      (post (chunk_json ''/a/b.py'' 0 ''x=1'')) clk))) = Some 1"
  by (simp add: receive_post result_of_def process_chunk_def Let_def extension_of_def
        lit_def dot_def newline_def)

text \<open>
  Claim C10. The result that \<^verbatim>\<open>_process_chunk\<close> computes for a chunk has the length of the
  content as \<^verbatim>\<open>content_length\<close> and one more than the number of newlines in the content
  as \<^verbatim>\<open>lines_count\<close>, which is therefore never zero; for the empty content they are 0
  and 1. Whenever the answer to a request with a valid body carries a result, it is
  that result, and it does carry one when the request passes authentication and its
  path can be encoded.
\<close>

theorem empty_content_one_line:
  "content_length (fst (process_chunk self chunk clk)) = length (content chunk) \<and>
   lines_count (fst (process_chunk self chunk clk)) =
     Suc (length (filter (\<lambda>c. c = newline) (content chunk))) \<and>
   0 < lines_count (fst (process_chunk self chunk clk)) \<and>
   (content chunk = [] \<longrightarrow>
      content_length (fst (process_chunk self chunk clk)) = 0 \<and>
      lines_count (fst (process_chunk self chunk clk)) = 1) \<and>
   (parse_chunk P request = Inr chunk \<and>
    result_of (fst (receive_code_chunk P self request clk)) = Some r \<longrightarrow>
      r = fst (process_chunk self chunk clk)) \<and>
   (parse_chunk P request = Inr chunk \<and> auth_error self request = None \<and>
    utf8_encodable (path chunk) \<longrightarrow>
      result_of (fst (receive_code_chunk P self request clk)) =
        Some (fst (process_chunk self chunk clk)))"
proof -
  let ?r = "fst (process_chunk self chunk clk)"
  have 1: "content_length ?r = length (content chunk)"
    by (simp add: process_chunk_def Let_def)
  have 2: "lines_count ?r = Suc (length (filter (\<lambda>c. c = newline) (content chunk)))"
    by (simp add: process_chunk_def Let_def length_str_split)
  have 3: "r = ?r"
    if "parse_chunk P request = Inr chunk"
      and "result_of (fst (receive_code_chunk P self request clk)) = Some r"
    using that
    by (auto simp add: receive_code_chunk_def result_of_def split_def Let_def on_exception_def
          split: option.splits if_splits)
  have 4: "result_of (fst (receive_code_chunk P self request clk)) = Some ?r"
    if "parse_chunk P request = Inr chunk" and "auth_error self request = None"
      and "utf8_encodable (path chunk)"
    using that by (simp add: receive_accepted result_of_def)
  have 5: "0 < lines_count ?r"
    by (simp add: 2)
  have 6: "content_length ?r = 0 \<and> lines_count ?r = 1" if "content chunk = []"
    using that by (simp add: 1 2)
  from 1 2 3 4 5 6 show ?thesis by blast
qed

theorem empty_content_one_line_witness:
  "map_option content_length (result_of (fst (receive_code_chunk strict (init None)
      (post (chunk_json ''/a/b.py'' 0 [])) (tick ''t'')))) = Some 0 \<and>
   map_option lines_count (result_of (fst (receive_code_chunk strict (init None)
      (post (chunk_json ''/a/b.py'' 0 [])) (tick ''t'')))) = Some 1"
proof -
  let ?c = "\<lparr>path = lit ''/a/b.py'', idx = 0, content = lit []\<rparr>"
  have p: "parse_chunk strict (post (chunk_json ''/a/b.py'' 0 [])) = Inr ?c"
    by (rule parse_chunk_post)
  have a: "auth_error (init None) (post (chunk_json ''/a/b.py'' 0 [])) = None"
    by (simp add: auth_error_def init_def)
  have e: "utf8_encodable (path ?c)"
    by (simp add: utf8_encodable_lit)
  have c: "content ?c = []"
    by (simp add: lit_def)
  note t = empty_content_one_line [of "init None" ?c "tick ''t''" strict
      "post (chunk_json ''/a/b.py'' 0 [])"]
  from t p a e
  have r: "result_of (fst (receive_code_chunk strict (init None)
      (post (chunk_json ''/a/b.py'' 0 [])) (tick ''t''))) =
        Some (fst (process_chunk (init None) ?c (tick ''t'')))"
    by blast
  from t c
  have "content_length (fst (process_chunk (init None) ?c (tick ''t''))) = 0 \<and>
        lines_count (fst (process_chunk (init None) ?c (tick ''t''))) = 1"
    by blast
  with r show ?thesis by simp
qed

subsection \<open>Extension and language\<close>

lemma result_process_chunk:
  "file_extension (fst (process_chunk self chunk clk)) = extension_of (path chunk)"
  "language (fst (process_chunk self chunk clk)) =
     (if extension_of (path chunk) = lit ''py'' then lit ''python''
      else if extension_of (path chunk) = lit ''ts'' \<or> extension_of (path chunk) = lit ''js''
      then lit ''typescript/javascript''
      else lit ''generic'')"
  by (simp_all add: process_chunk_def Let_def)

lemma extension_examples:
  "extension_of (lit ''a.py'') = lit ''py''"
  "extension_of (lit ''a.ts'') = lit ''ts''"
  "extension_of (lit ''a.js'') = lit ''js''"
  "extension_of (lit ''a.txt'') = lit ''txt''"
  "extension_of (lit ''a'') = []"
  by (simp_all add: extension_of_def lit_def dot_def)

text \<open>
  Claim C7. The extension and the language of a result depend on the path alone, not on
  the stored state, the clock, the index or the content: the extension is what follows
  the last dot of the path (empty when the path has no dot), and the language is
  \<^verbatim>\<open>"python"\<close> for the extension \<^verbatim>\<open>py\<close>, \<^verbatim>\<open>"typescript/javascript"\<close> for \<^verbatim>\<open>ts\<close> and
  \<^verbatim>\<open>js\<close>, and \<^verbatim>\<open>"generic"\<close> for every other extension. So \<^verbatim>\<open>a.py\<close> is python, \<^verbatim>\<open>a.ts\<close>
  and \<^verbatim>\<open>a.js\<close> are typescript/javascript, \<^verbatim>\<open>a.txt\<close> is generic, and \<^verbatim>\<open>a\<close> is generic
  with the empty extension.
\<close>

theorem language_classification:
  "(file_extension (fst (process_chunk self chunk clk)) = extension_of (path chunk) \<and>
    language (fst (process_chunk self chunk clk)) =
      (if extension_of (path chunk) = lit ''py'' then lit ''python''
       else if extension_of (path chunk) = lit ''ts'' \<or> extension_of (path chunk) = lit ''js''
       then lit ''typescript/javascript''
       else lit ''generic'')) \<and>
   (dot \<notin> set e \<longrightarrow> extension_of (q @ dot # e) = e) \<and>
   (dot \<notin> set p \<longrightarrow> extension_of p = []) \<and>
   (path chunk = lit ''a.py'' \<longrightarrow>
      language (fst (process_chunk self chunk clk)) = lit ''python'') \<and>
   (path chunk = lit ''a.ts'' \<longrightarrow>
      language (fst (process_chunk self chunk clk)) = lit ''typescript/javascript'') \<and>
   (path chunk = lit ''a.js'' \<longrightarrow>
      language (fst (process_chunk self chunk clk)) = lit ''typescript/javascript'') \<and>
   (path chunk = lit ''a.txt'' \<longrightarrow>
      language (fst (process_chunk self chunk clk)) = lit ''generic'') \<and>
   (path chunk = lit ''a'' \<longrightarrow>
      language (fst (process_chunk self chunk clk)) = lit ''generic'' \<and>
      file_extension (fst (process_chunk self chunk clk)) = [])"
proof -
  have ex: "lit ''txt'' \<noteq> lit ''py''" "lit ''txt'' \<noteq> lit ''ts''" "lit ''txt'' \<noteq> lit ''js''"
    "lit ''ts'' \<noteq> lit ''py''" "lit ''js'' \<noteq> lit ''py''"
    "[] \<noteq> lit ''py''" "[] \<noteq> lit ''ts''" "[] \<noteq> lit ''js''"
    by (simp_all add: lit_def)
  show ?thesis
    by (simp add: result_process_chunk extension_of_suffix extension_of_no_dot
          extension_examples ex)
qed

theorem language_classification_witness:
  "language (fst (process_chunk (init None) \<lparr>path = lit ''a.py'', idx = 0, content = []\<rparr>
      \<lparr>utcnow_stored = [], utcnow_result = []\<rparr>)) = lit ''python'' \<and>
   extension_of (lit ''a'' @ dot # lit ''py'') = lit ''py'' \<and>
   extension_of (lit ''a'') = []"
proof -
  have d1: "dot \<notin> set (lit ''py'')" and d2: "dot \<notin> set (lit ''a'')"
    by (simp_all add: lit_def dot_def)
  have p: "path \<lparr>path = lit ''a.py'', idx = 0, content = []\<rparr> = lit ''a.py''"
    by simp
  from d1 d2 p
    language_classification [of "init None" "\<lparr>path = lit ''a.py'', idx = 0, content = []\<rparr>"
      "\<lparr>utcnow_stored = [], utcnow_result = []\<rparr>" "lit ''py''" "lit ''a''" "lit ''a''"]
  show ?thesis by blast
qed

subsection \<open>The logs only grow\<close>

lemma receive_extends_log:
  "\<exists>ys. chunk_log (snd (receive_code_chunk P self request clk)) p = chunk_log self p @ ys"
proof (cases "parse_chunk P request")
  case (Inl e)
  then show ?thesis by (simp add: receive_rejected_parse)
next
  case (Inr chunk)
  show ?thesis
  proof (cases "auth_error self request")
    case None
    show ?thesis
      by (simp add: receive_accepted_state [OF Inr None] chunk_log_process_chunk)
  next
    case (Some msg)
    show ?thesis by (simp add: receive_rejected_auth [OF Inr Some])
  qed
qed

lemma serve_extends_log:
  "\<exists>ys. chunk_log (snd (serve P self reqs)) p = chunk_log self p @ ys"
proof (induction reqs arbitrary: self)
  case Nil
  show ?case by simp
next
  case (Cons rc reqs)
  obtain request clk where rc: "rc = (request, clk)" by (cases rc)
  let ?s1 = "snd (receive_code_chunk P self request clk)"
  obtain ys where 1: "chunk_log ?s1 p = chunk_log self p @ ys"
    using receive_extends_log by blast
  obtain zs where 2: "chunk_log (snd (serve P ?s1 reqs)) p = chunk_log ?s1 p @ zs"
    using Cons.IH by blast
  have "snd (serve P self (rc # reqs)) = snd (serve P ?s1 reqs)"
    by (simp add: rc split_def Let_def)
  with 1 2 show ?case by simp
qed

lemma serve_posts:
  "auth_manager self = None \<Longrightarrow>
     serve P self ((post (chunk_json p i c), clk) # rest) =
       (\<lparr>response_body =
            OkBody (lit ''Processed chunk '' @ str_of_int i @ lit '' from '' @ lit p)
              (fst (process_chunk self \<lparr>path = lit p, idx = i, content = lit c\<rparr> clk)),
          status_code = 200\<rparr>
        # fst (serve P (snd (process_chunk self \<lparr>path = lit p, idx = i, content = lit c\<rparr> clk)) rest),
        snd (serve P (snd (process_chunk self \<lparr>path = lit p, idx = i, content = lit c\<rparr> clk)) rest))"
  by (simp add: receive_post split_def Let_def)

text \<open>
  Claim C8. A request that passes validation and authentication puts its record at the
  end of the log of its path and leaves the log of every other path as it was; over any
  run of requests, accepted or not, the log of each path keeps its old records in place
  and only gains records after them. Chunks with the indices 2, 0, 1 sent in that order
  for one path are stored in the order 2, 0, 1.
\<close>

theorem log_append_only:
  "(parse_chunk P request = Inr chunk \<and> auth_error self request = None \<longrightarrow>
      chunk_log (snd (receive_code_chunk P self request clk)) (path chunk) =
        chunk_log self (path chunk)
          @ [\<lparr>rec_idx = idx chunk, rec_content = content chunk,
               rec_timestamp = utcnow_stored clk\<rparr>] \<and>
      (\<forall>p. p \<noteq> path chunk \<longrightarrow>
         chunk_log (snd (receive_code_chunk P self request clk)) p = chunk_log self p)) \<and>
   (\<exists>ys. chunk_log (snd (serve P self reqs)) p = chunk_log self p @ ys) \<and>
   map rec_idx (chunk_log (snd (serve P (init None)
       [(post (chunk_json ''/a/b.py'' 2 ''c2''), clk1),
        (post (chunk_json ''/a/b.py'' 0 ''c0''), clk2),
        (post (chunk_json ''/a/b.py'' 1 ''c1''), clk3)])) (lit ''/a/b.py'')) = [2, 0, 1]"
proof -
  have a: "parse_chunk P request = Inr chunk \<and> auth_error self request = None \<longrightarrow>
      chunk_log (snd (receive_code_chunk P self request clk)) (path chunk) =
        chunk_log self (path chunk)
          @ [\<lparr>rec_idx = idx chunk, rec_content = content chunk,
               rec_timestamp = utcnow_stored clk\<rparr>] \<and>
      (\<forall>p. p \<noteq> path chunk \<longrightarrow>
         chunk_log (snd (receive_code_chunk P self request clk)) p = chunk_log self p)"
    by (simp add: receive_accepted_state chunk_log_process_chunk)
  have am: "auth_manager (init None) = None"
    by (simp add: init_def)
  have e: "chunk_log (init None) (lit ''/a/b.py'') = []"
    by (simp add: chunk_log_def init_def)
  have c: "map rec_idx (chunk_log (snd (serve P (init None)
       [(post (chunk_json ''/a/b.py'' 2 ''c2''), clk1),
        (post (chunk_json ''/a/b.py'' 0 ''c0''), clk2),
        (post (chunk_json ''/a/b.py'' 1 ''c1''), clk3)])) (lit ''/a/b.py'')) = [2, 0, 1]"
    by (simp add: serve_posts am auth_manager_process_chunk chunk_log_process_chunk e
          del: serve.simps(2))
  from a serve_extends_log [of P self reqs p] c show ?thesis by blast
qed

theorem log_append_only_witness:
  "chunk_log (snd (receive_code_chunk strict (init None) (post (chunk_json ''/a/b.py'' 2 ''c2''))
      (tick ''t''))) (lit ''/a/b.py'') =
     [\<lparr>rec_idx = 2, rec_content = lit ''c2'', rec_timestamp = lit ''t''\<rparr>] \<and>
   chunk_log (snd (receive_code_chunk strict (init None) (post (chunk_json ''/a/b.py'' 2 ''c2''))
      (tick ''t''))) (lit ''/a/c.py'') = []"
proof -
  have a: "auth_error (init None) (post (chunk_json ''/a/b.py'' 2 ''c2'')) = None"
    by (simp add: auth_error_no_manager init_def)
  have e: "chunk_log (init None) q = []" for q
    by (simp add: chunk_log_def init_def)
  have n: "lit ''/a/c.py'' \<noteq> lit ''/a/b.py''"
    by (simp add: lit_def)
  from log_append_only [of strict "post (chunk_json ''/a/b.py'' 2 ''c2'')"
      "\<lparr>path = lit ''/a/b.py'', idx = 2, content = lit ''c2''\<rparr>" "init None" "tick ''t''"]
    parse_chunk_post [of strict "''/a/b.py''" 2 "''c2''"] a
  have "chunk_log (snd (receive_code_chunk strict (init None)
           (post (chunk_json ''/a/b.py'' 2 ''c2'')) (tick ''t''))) (lit ''/a/b.py'') =
          chunk_log (init None) (lit ''/a/b.py'')
            @ [\<lparr>rec_idx = 2, rec_content = lit ''c2'', rec_timestamp = lit ''t''\<rparr>] \<and>
        (\<forall>p. p \<noteq> lit ''/a/b.py'' \<longrightarrow>
           chunk_log (snd (receive_code_chunk strict (init None)
             (post (chunk_json ''/a/b.py'' 2 ''c2'')) (tick ''t''))) p = chunk_log (init None) p)"
    by (simp add: tick_def)
  with n show ?thesis by (simp add: e)
qed

subsection \<open>Rejected requests\<close>

lemma auth_error_cases:
  "auth_manager self = Some validate_api_key \<Longrightarrow>
     auth_error self request =
       (case authorization request of
          None \<Rightarrow> Some (lit ''Authorization header required'')
        | Some h \<Rightarrow>
            if \<not> startswith h (lit ''Bearer '') then Some (lit ''Authorization header required'')
            else if \<not> validate_api_key (drop 7 h) then Some (lit ''Invalid API key'')
            else None)"
  by (auto simp add: auth_error_def startswith_def lit_def split: option.splits)

text \<open>
  Claim C5. A request rejected by the validation of its body (the body is not JSON, is
  not an object, or lacks a valid field) or by authentication leaves the object as it
  was: the storage is unchanged, no log is created or extended, and the count that the
  status endpoint reports is the same before and after. The answer is one of 400, 401
  and 500.
\<close>

theorem rejected_request_no_effect:
  assumes "(\<exists>e. parse_chunk P request = Inl e) \<or> auth_error self request \<noteq> None"
  shows "snd (receive_code_chunk P self request clk) = self \<and>
         status_code (fst (receive_code_chunk P self request clk)) \<in> {400, 401, 500} \<and>
         chunk_log (snd (receive_code_chunk P self request clk)) p = chunk_log self p \<and>
         reported_chunks (snd (receive_code_chunk P self request clk)) now =
           reported_chunks self now"
proof (cases "parse_chunk P request")
  case (Inl e)
  then show ?thesis
    by (simp add: receive_rejected_parse status_on_exception)
next
  case (Inr chunk)
  with assms obtain msg where "auth_error self request = Some msg" by auto
  with Inr show ?thesis
    by (simp add: receive_rejected_auth)
qed

theorem rejected_request_no_effect_witness:
  "snd (receive_code_chunk strict (init None)
      \<lparr>json_loads_body = Inl JSONDecodeError, authorization = None\<rparr> (tick ''t'')) = init None \<and>
   snd (receive_code_chunk strict (init (Some (only_key ''secret'')))
      (post (chunk_json ''/a/b.py'' 0 ''x=1'')) (tick ''t'')) = init (Some (only_key ''secret''))"
proof -
  have 1: "(\<exists>e. parse_chunk strict \<lparr>json_loads_body = Inl JSONDecodeError, authorization = None\<rparr>
              = Inl e) \<or>
           auth_error (init None) \<lparr>json_loads_body = Inl JSONDecodeError, authorization = None\<rparr>
             \<noteq> None"
    by (simp add: parse_chunk_def)
  have 2: "(\<exists>e. parse_chunk strict (post (chunk_json ''/a/b.py'' 0 ''x=1'')) = Inl e) \<or>
           auth_error (init (Some (only_key ''secret''))) (post (chunk_json ''/a/b.py'' 0 ''x=1''))
             \<noteq> None"
    by (simp add: auth_error_def init_def post_def)
  from rejected_request_no_effect [OF 1] rejected_request_no_effect [OF 2]
  show ?thesis by blast
qed

text \<open>
  Claim C6. With an authentication manager configured, a request whose body is a valid
  chunk is answered 401 with an error body, and stores nothing, when it has no
  \<^verbatim>\<open>Authorization\<close> header, when the header does not start with \<^verbatim>\<open>"Bearer "\<close>, and when
  the manager rejects the key after \<^verbatim>\<open>"Bearer "\<close>. The message is
  \<^verbatim>\<open>Authorization header required\<close> in the first two cases and \<^verbatim>\<open>Invalid API key\<close> in the
  third. (The handler validates the body before it authenticates.)
\<close>

theorem auth_failures_401:
  assumes "auth_manager self = Some validate_api_key"
    and "parse_chunk P request = Inr chunk"
    and "authorization request = None \<or>
         (\<exists>h. authorization request = Some h \<and>
              (\<not> startswith h (lit ''Bearer '') \<or> \<not> validate_api_key (drop 7 h)))"
  shows "status_code (fst (receive_code_chunk P self request clk)) = 401 \<and>
         (\<exists>msg. response_body (fst (receive_code_chunk P self request clk)) = ErrorBody msg \<and>
            msg = (if authorization request = None \<or>
                      \<not> startswith (the (authorization request)) (lit ''Bearer '')
                   then lit ''Authorization header required'' else lit ''Invalid API key'')) \<and>
         snd (receive_code_chunk P self request clk) = self"
proof -
  from assms(3) have "auth_error self request =
      Some (if authorization request = None \<or>
               \<not> startswith (the (authorization request)) (lit ''Bearer '')
            then lit ''Authorization header required'' else lit ''Invalid API key'')"
    by (auto simp add: auth_error_cases [OF assms(1)])
  then show ?thesis
    by (simp add: receive_rejected_auth [OF assms(2)])
qed

theorem auth_failures_401_witness:
  "status_code (fst (receive_code_chunk strict (init (Some (only_key ''secret'')))
      (post (chunk_json ''/a/b.py'' 0 ''x=1'')) (tick ''t''))) = 401 \<and>
   status_code (fst (receive_code_chunk strict (init (Some (only_key ''secret'')))
      \<lparr>json_loads_body = Inr (chunk_json ''/a/b.py'' 0 ''x=1''),
       authorization = Some (lit ''Basic secret'')\<rparr> (tick ''t''))) = 401 \<and>
   status_code (fst (receive_code_chunk strict (init (Some (only_key ''secret'')))
      \<lparr>json_loads_body = Inr (chunk_json ''/a/b.py'' 0 ''x=1''),
       authorization = Some (lit ''Bearer wrong'')\<rparr> (tick ''t''))) = 401"
proof -
  let ?self = "init (Some (only_key ''secret''))"
  let ?c = "\<lparr>path = lit ''/a/b.py'', idx = 0, content = lit ''x=1''\<rparr>"
  have am: "auth_manager ?self = Some (only_key ''secret'')"
    by (simp add: init_def)
  have p: "parse_chunk strict
             \<lparr>json_loads_body = Inr (chunk_json ''/a/b.py'' 0 ''x=1''), authorization = h\<rparr> = Inr ?c"
    for h
    using parse_chunk_post [of strict "''/a/b.py''" 0 "''x=1''"]
    by (simp add: parse_chunk_def post_def)
  have h1: "authorization (post (chunk_json ''/a/b.py'' 0 ''x=1'')) = None \<or>
         (\<exists>h. authorization (post (chunk_json ''/a/b.py'' 0 ''x=1'')) = Some h \<and>
              (\<not> startswith h (lit ''Bearer '') \<or> \<not> only_key ''secret'' (drop 7 h)))"
    by (simp add: post_def)
  have h2: "authorization \<lparr>json_loads_body = Inr (chunk_json ''/a/b.py'' 0 ''x=1''),
                authorization = Some (lit ''Basic secret'')\<rparr> = None \<or>
         (\<exists>h. authorization \<lparr>json_loads_body = Inr (chunk_json ''/a/b.py'' 0 ''x=1''),
                authorization = Some (lit ''Basic secret'')\<rparr> = Some h \<and>
              (\<not> startswith h (lit ''Bearer '') \<or> \<not> only_key ''secret'' (drop 7 h)))"
    by (simp add: startswith_def lit_def)
  have h3: "authorization \<lparr>json_loads_body = Inr (chunk_json ''/a/b.py'' 0 ''x=1''),
                authorization = Some (lit ''Bearer wrong'')\<rparr> = None \<or>
         (\<exists>h. authorization \<lparr>json_loads_body = Inr (chunk_json ''/a/b.py'' 0 ''x=1''),
                authorization = Some (lit ''Bearer wrong'')\<rparr> = Some h \<and>
              (\<not> startswith h (lit ''Bearer '') \<or> \<not> only_key ''secret'' (drop 7 h)))"
    by (simp add: startswith_def lit_def only_key_def)
  from auth_failures_401 [OF am parse_chunk_post h1]
    auth_failures_401 [OF am p h2] auth_failures_401 [OF am p h3]
  show ?thesis by blast
qed

subsection \<open>The count of the status endpoint\<close>

text \<open>
  \<^verbatim>\<open>len(self.chunk_storage)\<close> is the number of keys of the dict, that is of paths, while
  every processed chunk adds one entry to the storage.
\<close>

lemma reported_chunks_eq: "reported_chunks self now = Some (length (chunk_storage self))"
  by (simp add: reported_chunks_def indexing_status_def)

lemma length_storage_first:
  "length (chunk_storage (snd (process_chunk (init am) chunk clk))) = 1"
  by (simp add: length_storage_process_chunk init_def)

lemma length_storage_same_path:
  "path c2 = path c1 \<Longrightarrow>
     length (chunk_storage (snd (process_chunk (snd (process_chunk self c1 clk1)) c2 clk2))) =
     length (chunk_storage (snd (process_chunk self c1 clk1)))"
  by (simp add: length_storage_process_chunk [of "snd (process_chunk self c1 clk1)"]
        storage_process_chunk)

lemma init_facts:
  "auth_manager (init am) = am" "chunk_storage (init am) = []"
  "chunk_log (init am) p = []" "spec_total_chunks (init am) = 0"
  by (simp_all add: init_def chunk_log_def spec_total_chunks_def)

lemma distinct_keys_process_chunk:
  "distinct (map fst (chunk_storage self)) \<Longrightarrow>
     distinct (map fst (chunk_storage (snd (process_chunk self chunk clk))))"
  by (simp add: process_chunk_def Let_def AList.distinct_map_entry AList.distinct_update)

text \<open>
  Claim C1. After two successful submissions for the same path \<^verbatim>\<open>/a/b.py\<close>, both
  answered 200, the storage holds two entries, but \<^verbatim>\<open>GET /index/status\<close> answers 200
  with \<^verbatim>\<open>chunks_processed\<close> = 1: the field counts paths, not entries.
\<close>

theorem chunks_processed_counts_paths:
  "map status_code (fst (serve P (init None)
      [(post (chunk_json ''/a/b.py'' 0 ''x=1''), clk1),
       (post (chunk_json ''/a/b.py'' 1 ''y=2''), clk2)])) = [200, 200] \<and>
   spec_total_chunks (snd (serve P (init None)
      [(post (chunk_json ''/a/b.py'' 0 ''x=1''), clk1),
       (post (chunk_json ''/a/b.py'' 1 ''y=2''), clk2)])) = 2 \<and>
   reported_chunks (snd (serve P (init None)
      [(post (chunk_json ''/a/b.py'' 0 ''x=1''), clk1),
       (post (chunk_json ''/a/b.py'' 1 ''y=2''), clk2)])) now = Some 1 \<and>
   status_code (indexing_status (snd (serve P (init None)
      [(post (chunk_json ''/a/b.py'' 0 ''x=1''), clk1),
       (post (chunk_json ''/a/b.py'' 1 ''y=2''), clk2)])) now) = 200"
  by (simp add: serve_posts init_facts auth_manager_process_chunk spec_total_process_chunk
        reported_chunks_eq length_storage_same_path length_storage_first
        indexing_status_def del: serve.simps(2))

text \<open>
  Claim C3. The same chunk submitted twice is stored twice, as two entries of the log of
  its path in the order of arrival, but the count reported by the status endpoint is 1
  after the first submission and still 1 after the second.
\<close>

theorem duplicate_chunk_count_not_doubled:
  "map (\<lambda>r. (rec_idx r, rec_content r)) (chunk_log (snd (serve P (init None)
      [(post (chunk_json ''/a/b.py'' 0 ''x=1''), clk1),
       (post (chunk_json ''/a/b.py'' 0 ''x=1''), clk2)])) (lit ''/a/b.py'')) =
     [(0, lit ''x=1''), (0, lit ''x=1'')] \<and>
   reported_chunks (snd (serve P (init None)
      [(post (chunk_json ''/a/b.py'' 0 ''x=1''), clk1)])) now = Some 1 \<and>
   reported_chunks (snd (serve P (init None)
      [(post (chunk_json ''/a/b.py'' 0 ''x=1''), clk1),
       (post (chunk_json ''/a/b.py'' 0 ''x=1''), clk2)])) now = Some 1"
  by (simp add: serve_posts init_facts auth_manager_process_chunk chunk_log_process_chunk
        reported_chunks_eq length_storage_same_path length_storage_first
        del: serve.simps(2))

text \<open>
  Claim C4. When a chunk has been accepted for a path, a further valid request for the
  same path appends exactly one entry to the log of that path and the number of stored
  entries grows by one, but the count reported by the status endpoint stays as it was.
\<close>

theorem second_chunk_count_not_increased:
  "chunk_log (snd (receive_code_chunk P
       (snd (receive_code_chunk P (self\<lparr>auth_manager := None\<rparr>) (post (chunk_json p i c)) clk1))
       (post (chunk_json p j d)) clk2)) (lit p) =
     chunk_log (snd (receive_code_chunk P (self\<lparr>auth_manager := None\<rparr>)
       (post (chunk_json p i c)) clk1)) (lit p)
       @ [\<lparr>rec_idx = j, rec_content = lit d, rec_timestamp = utcnow_stored clk2\<rparr>] \<and>
   spec_total_chunks (snd (receive_code_chunk P
       (snd (receive_code_chunk P (self\<lparr>auth_manager := None\<rparr>) (post (chunk_json p i c)) clk1))
       (post (chunk_json p j d)) clk2)) =
     Suc (spec_total_chunks (snd (receive_code_chunk P (self\<lparr>auth_manager := None\<rparr>)
       (post (chunk_json p i c)) clk1))) \<and>
   reported_chunks (snd (receive_code_chunk P
       (snd (receive_code_chunk P (self\<lparr>auth_manager := None\<rparr>) (post (chunk_json p i c)) clk1))
       (post (chunk_json p j d)) clk2)) now =
     reported_chunks (snd (receive_code_chunk P (self\<lparr>auth_manager := None\<rparr>)
       (post (chunk_json p i c)) clk1)) now"
proof -
  let ?s0 = "self\<lparr>auth_manager := None\<rparr>"
  let ?c1 = "\<lparr>path = lit p, idx = i, content = lit c\<rparr>"
  let ?s1 = "snd (process_chunk ?s0 ?c1 clk1)"
  have 1: "snd (receive_code_chunk P ?s0 (post (chunk_json p i c)) clk1) = ?s1"
    by (simp add: receive_post)
  have am: "auth_manager ?s1 = None"
    by (simp add: auth_manager_process_chunk)
  show ?thesis
    unfolding 1
    by (simp add: receive_post [OF am] chunk_log_process_chunk spec_total_process_chunk
          reported_chunks_eq length_storage_same_path)
qed

subsection \<open>Bodies that are JSON but not a chunk\<close>

text \<open>
  Claim C2. A body that is valid JSON but lacks the field \<^verbatim>\<open>content\<close>, and a body that
  is a JSON array, are answered with status 500 (the exception reaches
  \<^verbatim>\<open>except Exception\<close>), not 400, whatever the headers and whatever conversions pydantic
  makes; the object is left unchanged.
\<close>

theorem invalid_body_answers_500:
  "receive_code_chunk P self
     \<lparr>json_loads_body = Inr (JDict [(lit ''path'', JStr (lit ''/a/b.py'')), (lit ''idx'', JInt 0)]),
      authorization = h\<rparr> clk =
     (\<lparr>response_body = ProcessingErrorBody ValidationError, status_code = 500\<rparr>, self) \<and>
   receive_code_chunk P self
     \<lparr>json_loads_body = Inr (JList [JStr (lit ''/a/b.py''), JInt 0, JStr (lit ''x=1'')]),
      authorization = h\<rparr> clk =
     (\<lparr>response_body = ProcessingErrorBody TypeError, status_code = 500\<rparr>, self)"
  by (simp add: receive_code_chunk_def parse_chunk_def CodeChunk_init_def field_def lit_def
        on_exception_def split: option.splits)

end
